theory Spec2Isabelle
  imports Main
begin

section \<open>The query API of the data pipeline (src/api.py)\<close>

text \<open>
  The module is glue over a web framework, a validation library, a rate limiter and a
  SQL toolkit. The embedding follows the module top to bottom. What the module receives
  from outside is a parameter of the model:
  \<^item> the configuration document (\<open>table_name\<close>, \<open>users\<close>);
  \<^item> the table \<open>responses\<close> imported from \<open>utils\<close>;
  \<^item> the store, as an engine: whether \<open>connect\<close> raises, and the function \<open>execute\<close>
    that answers a statement with rows or raises;
  \<^item> the rate limiter: its verdict on the request at hand is a parameter of the route;
    the limiter itself is a library, modelled further down from the spec's description.
  Logging and the calls on the store are recorded as a list of events, so that
  "before the store is contacted" is a statement about that list.
\<close>

subsection \<open>Exceptions, events, HTTP status codes\<close>

text \<open>\<open>SQLAlchemyError\<close> is the base class of the exceptions of the SQL toolkit.\<close>

datatype store_error = SQLAlchemyError string

datatype exn =
    HTTPException nat string "(string \<times> string) list"
  | RequestValidationError "string list"
  | RateLimitExceeded
  | StoreError store_error
  | AttributeError
  | TypeError
  | ValueError

text \<open>\<open>text(query)\<close>: the statement object the toolkit builds from a string.\<close>

datatype clause = TextClause string

text \<open>
  The events of a request: the three logging calls, the call \<open>engine.connect()\<close> and
  the call \<open>conn.execute(text(query))\<close> with its argument.
\<close>

datatype event =
    LogInfo string
  | LogWarning string
  | LogException exn
  | Connect
  | Execute clause

definition HTTP_200_OK :: nat where "HTTP_200_OK = 200"
definition HTTP_400_BAD_REQUEST :: nat where "HTTP_400_BAD_REQUEST = 400"
definition HTTP_401_UNAUTHORIZED :: nat where "HTTP_401_UNAUTHORIZED = 401"

subsection \<open>Configuration\<close>

record config =
  table_name :: string
  users :: "string \<rightharpoonup> string"
  rate_per_minute :: nat
  rate_per_second :: nat

subsection \<open>\<open>get_current_username\<close>\<close>

text \<open>
  \<open>str.encode("utf8")\<close>. A character of HOL is a code point below 256: below 128 it is
  one byte, from 128 on two bytes.
\<close>

definition utf8_char :: "char \<Rightarrow> nat list" where
  "utf8_char c =
     (let n = (of_char c :: nat)
      in if n < 128 then [n] else [192 + n div 64, 128 + n mod 64])"

fun encode_utf8 :: "string \<Rightarrow> nat list" where
  "encode_utf8 [] = []"
| "encode_utf8 (c # cs) = utf8_char c @ encode_utf8 cs"

text \<open>\<open>secrets.compare_digest\<close> on two byte strings: equality, in constant time.\<close>

definition compare_digest :: "nat list \<Rightarrow> nat list \<Rightarrow> bool" where
  "compare_digest a b = (a = b)"

record credentials =
  username :: string
  password :: string

definition get_current_username :: "config \<Rightarrow> credentials \<Rightarrow> exn + string" where
  "get_current_username cfg creds =
     (let current_username_bytes = encode_utf8 (username creds) in
      case users cfg ''username'' of
        None \<Rightarrow> Inl AttributeError
      | Some correct_username \<Rightarrow>
         (let correct_username_bytes = encode_utf8 correct_username;
              is_correct_username = compare_digest current_username_bytes correct_username_bytes;
              current_password_bytes = encode_utf8 (password creds)
          in case users cfg ''password'' of
               None \<Rightarrow> Inl AttributeError
             | Some correct_password \<Rightarrow>
                (let correct_password_bytes = encode_utf8 correct_password;
                     is_correct_password =
                       compare_digest current_password_bytes correct_password_bytes
                 in if \<not> (is_correct_username \<and> is_correct_password)
                    then Inl (HTTPException HTTP_401_UNAUTHORIZED
                                ''Incorrect username or password''
                                [(''WWW-Authenticate'', ''Basic'')])
                    else Inr (username creds))))"

subsection \<open>\<open>read_current_user\<close> and \<open>GET /users/me\<close>\<close>

definition read_current_user :: "string \<Rightarrow> string \<rightharpoonup> string" where
  "read_current_user u = [''username'' \<mapsto> u]"

text \<open>
  The route: the dependency \<open>get_current_username\<close> runs first, on the credentials
  the \<open>HTTPBasic\<close> scheme read from the request; its exception ends the request. The
  handler logs nothing and touches nothing.
\<close>

definition get_users_me :: "config \<Rightarrow> credentials \<Rightarrow> event list \<times> (exn + (string \<rightharpoonup> string))" where
  "get_users_me cfg creds =
     (case get_current_username cfg creds of
        Inl e \<Rightarrow> ([], Inl e)
      | Inr u \<Rightarrow> ([], Inr (read_current_user u)))"

subsection \<open>\<open>RequestParams\<close>\<close>

text \<open>
  A field of the JSON body as the validation library meets it: the key is absent, its
  value is \<open>null\<close>, its value reads as a value of the field's type, or it does not.
\<close>

datatype 'a field = Missing | Null | Val 'a | Bad

record body =
  body_source_table :: "string field"
  body_start_index :: "int field"
  body_end_index :: "int field"
  body_limit :: "int field"
  body_start_date :: "string field"
  body_end_date :: "string field"

record RequestParams =
  source_table :: string
  start_index :: int
  end_index :: int
  limit :: "int option"
  start_date :: "string option"
  end_date :: "string option"

text \<open>\<open>source_table: str = Field(default=table_name)\<close>\<close>

definition source_table_field :: "string \<Rightarrow> string field \<Rightarrow> string option" where
  "source_table_field dflt f =
     (case f of Missing \<Rightarrow> Some dflt | Val s \<Rightarrow> Some s | Null \<Rightarrow> None | Bad \<Rightarrow> None)"

text \<open>\<open>start_index: int = Field(ge=0)\<close>, \<open>end_index: int = Field(ge=0)\<close>: required.\<close>

definition index_field :: "int field \<Rightarrow> int option" where
  "index_field f =
     (case f of Val n \<Rightarrow> (if n \<ge> 0 then Some n else None)
      | Missing \<Rightarrow> None | Null \<Rightarrow> None | Bad \<Rightarrow> None)"

text \<open>\<open>limit: Optional[int] = Field(default=5, le=1000)\<close>: \<open>null\<close> is a value of the type.\<close>

definition limit_field :: "int field \<Rightarrow> int option option" where
  "limit_field f =
     (case f of Missing \<Rightarrow> Some (Some 5)
      | Null \<Rightarrow> Some None
      | Val n \<Rightarrow> (if n \<le> 1000 then Some (Some n) else None)
      | Bad \<Rightarrow> None)"

text \<open>\<open>start_date: str = Field(default=None)\<close>, \<open>end_date\<close> alike: the default is not validated.\<close>

definition date_field :: "string field \<Rightarrow> string option option" where
  "date_field f =
     (case f of Missing \<Rightarrow> Some None | Val s \<Rightarrow> Some (Some s) | Null \<Rightarrow> None | Bad \<Rightarrow> None)"

definition failed :: "string \<Rightarrow> 'a option \<Rightarrow> string list" where
  "failed name r = (case r of None \<Rightarrow> [name] | Some _ \<Rightarrow> [])"

text \<open>Validation of the whole model: every field is checked, the failing ones are reported.\<close>

definition validate :: "string \<Rightarrow> body \<Rightarrow> string list + RequestParams" where
  "validate dflt b =
     (let st = source_table_field dflt (body_source_table b);
          si = index_field (body_start_index b);
          ei = index_field (body_end_index b);
          li = limit_field (body_limit b);
          sd = date_field (body_start_date b);
          ed = date_field (body_end_date b);
          errors = failed ''source_table'' st @ failed ''start_index'' si @
                   failed ''end_index'' ei @ failed ''limit'' li @
                   failed ''start_date'' sd @ failed ''end_date'' ed
      in case st of None \<Rightarrow> Inl errors | Some a \<Rightarrow>
         (case si of None \<Rightarrow> Inl errors | Some i \<Rightarrow>
         (case ei of None \<Rightarrow> Inl errors | Some j \<Rightarrow>
         (case li of None \<Rightarrow> Inl errors | Some l \<Rightarrow>
         (case sd of None \<Rightarrow> Inl errors | Some d \<Rightarrow>
         (case ed of None \<Rightarrow> Inl errors | Some e \<Rightarrow>
            Inr \<lparr>source_table = a, start_index = i, end_index = j, limit = l,
                 start_date = d, end_date = e\<rparr>))))))"

subsection \<open>Formatting the query\<close>

text \<open>\<open>str\<close> of an integer, as the f-string renders it; \<open>None\<close> renders as its name.\<close>

definition digit_char :: "nat \<Rightarrow> char" where
  "digit_char d = ''0123456789'' ! d"

function str_nat :: "nat \<Rightarrow> string" where
  "str_nat n = (if n < 10 then [digit_char n] else str_nat (n div 10) @ [digit_char (n mod 10)])"
  by pat_completeness auto
termination
  by (relation "measure id") auto

declare str_nat.simps [simp del]

definition str_int :: "int \<Rightarrow> string" where
  "str_int i = (if i < 0 then CHR ''-'' # str_nat (nat (- i)) else str_nat (nat i))"

definition str_limit :: "int option \<Rightarrow> string" where
  "str_limit l = (case l of None \<Rightarrow> ''None'' | Some n \<Rightarrow> str_int n)"

definition build_query :: "RequestParams \<Rightarrow> string" where
  "build_query params =
     ''SELECT * FROM '' @ source_table params @ '' LIMIT '' @ str_limit (limit params)"

subsection \<open>Rows, payloads, responses\<close>

text \<open>
  The values the database driver puts into a row: \<open>None\<close>, an integer, a float, a string
  or a byte string (a BLOB). The module never computes with a float; it matters only
  whether it is finite (\<open>Finite m e\<close> stands for the float of mantissa \<open>m\<close> and
  exponent \<open>e\<close>).
\<close>

datatype pyfloat = Finite int int | PosInf | NegInf | NaN

datatype pyvalue = PyNone | PyInt int | PyFloat pyfloat | PyStr string | PyBytes "nat list"

text \<open>
  A dictionary keeps its keys in the order of their first insertion; storing under a key
  it already has replaces the value in place.
\<close>

fun dict_set :: "'k \<Rightarrow> 'v \<Rightarrow> ('k \<times> 'v) list \<Rightarrow> ('k \<times> 'v) list" where
  "dict_set k v [] = [(k, v)]"
| "dict_set k v ((k', v') # d) = (if k' = k then (k, v) # d else (k', v') # dict_set k v d)"

fun dict_update :: "('k \<times> 'v) list \<Rightarrow> ('k \<times> 'v) list \<Rightarrow> ('k \<times> 'v) list" where
  "dict_update d [] = d"
| "dict_update d ((k, v) # items) = dict_update (dict_set k v d) items"

text \<open>A row of the result: the column names of the result and the row's values.\<close>

record Row =
  columns :: "string list"
  cells :: "pyvalue list"

text \<open>
  \<open>dict(row._mapping)\<close>: the columns in order, each with the row's value; of a column
  name that occurs twice the last value stays.
\<close>

definition dict_of_row :: "Row \<Rightarrow> (string \<times> pyvalue) list" where
  "dict_of_row row = dict_update [] (zip (columns row) (cells row))"

text \<open>
  A value of the payload: the list of records, or a plain value (\<open>None\<close> for
  \<open>data\<close> in the error payload, and the values of an entry of \<open>responses\<close>, which
  are taken to be plain).
\<close>

datatype pvalue = Records "(string \<times> pyvalue) list list" | Plain pyvalue

text \<open>
  \<open>{"data": d, **responses.get(key)}\<close>: the entry's own keys win over \<open>data\<close>; unpacking
  \<open>None\<close>, the answer of \<open>get\<close> for an absent key, raises \<open>TypeError\<close>.
\<close>

definition make_payload ::
  "(string \<rightharpoonup> (string \<times> pyvalue) list) \<Rightarrow> string \<Rightarrow> pvalue \<Rightarrow> exn + (string \<times> pvalue) list" where
  "make_payload responses key d =
     (case responses key of
        None \<Rightarrow> Inl TypeError
      | Some entry \<Rightarrow> Inr (dict_update [(''data'', d)] (map (\<lambda>(k, v). (k, Plain v)) entry)))"

text \<open>
  \<open>JSONResponse(content=payload, status_code=status_code)\<close> renders the content when it
  is built, with \<open>json.dumps(..., allow_nan=False)\<close>: the encoder walks the content in
  order and raises \<open>TypeError\<close> at a byte string, \<open>ValueError\<close> at a float that is not
  finite.
\<close>

definition value_error :: "pyvalue \<Rightarrow> exn option" where
  "value_error v =
     (case v of
        PyBytes _ \<Rightarrow> Some TypeError
      | PyFloat f \<Rightarrow> (case f of Finite _ _ \<Rightarrow> None | _ \<Rightarrow> Some ValueError)
      | _ \<Rightarrow> None)"

fun first_error :: "exn option list \<Rightarrow> exn option" where
  "first_error [] = None"
| "first_error (Some e # _) = Some e"
| "first_error (None # es) = first_error es"

definition dict_error :: "(string \<times> pyvalue) list \<Rightarrow> exn option" where
  "dict_error d = first_error (map (\<lambda>(k, v). value_error v) d)"

definition pvalue_error :: "pvalue \<Rightarrow> exn option" where
  "pvalue_error x =
     (case x of Records ds \<Rightarrow> first_error (map dict_error ds) | Plain v \<Rightarrow> value_error v)"

definition dumps_error :: "(string \<times> pvalue) list \<Rightarrow> exn option" where
  "dumps_error payload = first_error (map (\<lambda>(k, x). pvalue_error x) payload)"

text \<open>The values the encoder accepts.\<close>

fun json_serialisable :: "pyvalue \<Rightarrow> bool" where
  "json_serialisable (PyBytes _) = False"
| "json_serialisable (PyFloat (Finite _ _)) = True"
| "json_serialisable (PyFloat _) = False"
| "json_serialisable _ = True"

record JSONResponse =
  content :: "(string \<times> pvalue) list"
  status_code :: nat

definition JSONResponse_init :: "(string \<times> pvalue) list \<Rightarrow> nat \<Rightarrow> exn + JSONResponse" where
  "JSONResponse_init payload code =
     (case dumps_error payload of
        Some e \<Rightarrow> Inl e
      | None \<Rightarrow> Inr \<lparr>content = payload, status_code = code\<rparr>)"

subsection \<open>\<open>get_data\<close>\<close>

text \<open>
  The engine \<open>create_engine\<close> returns; building it opens nothing. \<open>connect\<close> is the
  exception \<open>engine.connect()\<close> raises, if any; \<open>execute\<close> is
  \<open>conn.execute(...).fetchall()\<close> on the open connection.
\<close>

record engine =
  connect :: "exn option"
  execute :: "clause \<Rightarrow> exn + Row list"

text \<open>The body of the \<open>try\<close> statement.\<close>

definition try_block ::
  "(string \<rightharpoonup> (string \<times> pyvalue) list) \<Rightarrow> engine \<Rightarrow> string \<Rightarrow>
     event list \<times> (exn + (string \<times> pvalue) list \<times> nat)" where
  "try_block responses eng query =
     (let log = [LogInfo ''fetching records from the database...'', Connect] in
      case connect eng of
        Some e \<Rightarrow> (log, Inl e)
      | None \<Rightarrow>
         (let log1 = log @ [Execute (TextClause query)] in
          case execute eng (TextClause query) of
            Inl e \<Rightarrow> (log1, Inl e)
          | Inr res \<Rightarrow>
             (let log2 = log1 @ (if length res = 0 then [LogWarning ''no records returned'']
                                 else []);
                  data = map dict_of_row res
              in case make_payload responses ''SUCCESS'' (Records data) of
                   Inl e \<Rightarrow> (log2, Inl e)
                 | Inr payload \<Rightarrow> (log2, Inr (payload, HTTP_200_OK)))))"

text \<open>
  The \<open>except HTTPException\<close> clause, which any other exception passes by, and after it
  the \<open>return\<close> statement, which builds the response outside the \<open>try\<close>.
\<close>

definition get_data ::
  "(string \<rightharpoonup> (string \<times> pyvalue) list) \<Rightarrow> engine \<Rightarrow> RequestParams \<Rightarrow>
     event list \<times> (exn + JSONResponse)" where
  "get_data responses eng params =
     (let query = build_query params in
      case try_block responses eng query of
        (log, Inr (payload, code)) \<Rightarrow> (log, JSONResponse_init payload code)
      | (log, Inl e) \<Rightarrow>
         (case e of
            HTTPException c d h \<Rightarrow>
              (case make_payload responses ''ERROR'' (Plain PyNone) of
                 Inl e' \<Rightarrow> (log @ [LogException e], Inl e')
               | Inr payload \<Rightarrow>
                   (log @ [LogException e], JSONResponse_init payload HTTP_400_BAD_REQUEST))
          | _ \<Rightarrow> (log, Inl e)))"

subsection \<open>\<open>POST /get_data\<close>\<close>

text \<open>
  The route, in the order the framework runs it: the dependency
  \<open>get_current_username\<close>, the validation of the body against \<open>RequestParams\<close>, then
  the decorated function, which is the rate limiter's wrapper around \<open>get_data\<close>.
  \<open>within_limits\<close> is the limiter's verdict on this request.
\<close>

definition post_get_data ::
  "config \<Rightarrow> (string \<rightharpoonup> (string \<times> pyvalue) list) \<Rightarrow> engine \<Rightarrow> bool \<Rightarrow>
     credentials \<Rightarrow> body \<Rightarrow> event list \<times> (exn + JSONResponse)" where
  "post_get_data cfg responses eng within_limits creds b =
     (case get_current_username cfg creds of
        Inl e \<Rightarrow> ([], Inl e)
      | Inr u \<Rightarrow>
         (case validate (table_name cfg) b of
            Inl errors \<Rightarrow> ([], Inl (RequestValidationError errors))
          | Inr params \<Rightarrow>
              if \<not> within_limits then ([], Inl RateLimitExceeded)
              else get_data responses eng params))"

text \<open>
  The status line the framework sends: the response's own code, the code of an
  \<open>HTTPException\<close>, 422 for a validation error, 429 for the limiter's exception, 500
  for an exception nobody handles.
\<close>

definition http_status :: "exn + JSONResponse \<Rightarrow> nat" where
  "http_status r =
     (case r of
        Inr resp \<Rightarrow> status_code resp
      | Inl (HTTPException c d h) \<Rightarrow> c
      | Inl (RequestValidationError errors) \<Rightarrow> 422
      | Inl RateLimitExceeded \<Rightarrow> 429
      | Inl _ \<Rightarrow> 500)"

text \<open>The query strings a request handed to the connection, read off its events.\<close>

fun executed :: "event list \<Rightarrow> string list" where
  "executed [] = []"
| "executed (Execute (TextClause q) # es) = q # executed es"
| "executed (_ # es) = executed es"

subsection \<open>Reading a decimal numeral\<close>

text \<open>
  The integer a string denotes as a decimal numeral in its shortest form: digits only,
  no leading zero but in \<open>0\<close> itself, a minus sign for a negative number only. It is
  the yardstick for the text the f-string puts after \<open>LIMIT\<close>.
\<close>

definition digit_value :: "char \<Rightarrow> nat option" where
  "digit_value c =
     (let n = (of_char c :: nat) in if 48 \<le> n \<and> n \<le> 57 then Some (n - 48) else None)"

fun digits_value :: "nat \<Rightarrow> string \<Rightarrow> nat option" where
  "digits_value acc [] = Some acc"
| "digits_value acc (c # cs) =
     (case digit_value c of None \<Rightarrow> None | Some d \<Rightarrow> digits_value (10 * acc + d) cs)"

definition nat_of_decimal :: "string \<Rightarrow> nat option" where
  "nat_of_decimal s =
     (case s of
        [] \<Rightarrow> None
      | c # cs \<Rightarrow> if c = CHR ''0'' \<and> cs \<noteq> [] then None else digits_value 0 s)"

definition int_of_decimal :: "string \<Rightarrow> int option" where
  "int_of_decimal s =
     (case s of
        [] \<Rightarrow> None
      | c # cs \<Rightarrow>
          if c = CHR ''-''
          then (case nat_of_decimal cs of
                  None \<Rightarrow> None
                | Some m \<Rightarrow> if m = 0 then None else Some (- int m))
          else map_option int (nat_of_decimal s))"

subsection \<open>The store\<close>

text \<open>
  The store is SQLite. Its \<open>LIMIT n\<close> returns the first \<open>n\<close> rows of the result, and
  all of them when \<open>n\<close> is negative.
\<close>

definition sqlite_limit :: "int \<Rightarrow> 'r list \<Rightarrow> 'r list" where
  "sqlite_limit n rows = (if n < 0 then rows else take (nat n) rows)"

subsection \<open>The rate limiter\<close>













subsection \<open>A sample deployment\<close>

text \<open>
  Concrete values on which the theorems below are evaluated: a configuration with
  one admin account and the limits of two requests per second and three per minute,
  the two entries of \<open>responses\<close>, a body with a given \<open>limit\<close>, and a table of three
  rows.
\<close>

definition sample_config :: config where
  "sample_config =
     \<lparr>table_name = ''events'',
      users = [''username'' \<mapsto> ''admin'', ''password'' \<mapsto> ''s3cret''],
      rate_per_minute = 3, rate_per_second = 2\<rparr>"

definition sample_success :: "(string \<times> pyvalue) list" where
  "sample_success = [(''message'', PyStr ''ok''), (''code'', PyStr ''00'')]"

definition sample_responses :: "string \<rightharpoonup> (string \<times> pyvalue) list" where
  "sample_responses =
     [''SUCCESS'' \<mapsto> sample_success,
      ''ERROR'' \<mapsto> [(''message'', PyStr ''failed''), (''code'', PyStr ''01'')]]"

definition sample_admin :: credentials where
  "sample_admin = \<lparr>username = ''admin'', password = ''s3cret''\<rparr>"

definition sample_body :: "int field \<Rightarrow> body" where
  "sample_body l =
     \<lparr>body_source_table = Missing, body_start_index = Val 0, body_end_index = Val 3,
      body_limit = l, body_start_date = Missing, body_end_date = Missing\<rparr>"

definition sample_params :: "int option \<Rightarrow> RequestParams" where
  "sample_params l =
     \<lparr>source_table = ''events'', start_index = 0, end_index = 3, limit = l,
      start_date = None, end_date = None\<rparr>"

definition sample_rows :: "Row list" where
  "sample_rows =
     [\<lparr>columns = [''id'', ''qty''], cells = [PyInt 1, PyInt 10]\<rparr>,
      \<lparr>columns = [''id'', ''qty''], cells = [PyInt 2, PyInt 20]\<rparr>,
      \<lparr>columns = [''id'', ''qty''], cells = [PyInt 3, PyInt 30]\<rparr>]"

text \<open>
  An engine that connects, knows one statement and answers it with SQLite's \<open>LIMIT\<close>
  on the given rows.
\<close>

definition sample_store :: "string \<Rightarrow> int \<Rightarrow> Row list \<Rightarrow> engine" where
  "sample_store known n rows =
     \<lparr>connect = None,
      execute = (\<lambda>q. if q = TextClause known then Inr (sqlite_limit n rows)
                     else Inl (StoreError (SQLAlchemyError ''no such table'')))\<rparr>"


text \<open>An engine whose database cannot be opened.\<close>

definition unreachable_store :: engine where
  "unreachable_store =
     \<lparr>connect = Some (StoreError (SQLAlchemyError ''unable to open database file'')),
      execute = (\<lambda>q. Inr [])\<rparr>"

text \<open>A table of one row that holds a BLOB.\<close>

definition blob_rows :: "Row list" where
  "blob_rows = [\<lparr>columns = [''id'', ''raw''], cells = [PyInt 1, PyBytes [0, 255]]\<rparr>]"



section \<open>Credential checking\<close>

lemma utf8_char_cases:
  "utf8_char c = [of_char c] \<and> (of_char c :: nat) < 128 \<or>
   utf8_char c = [192 + of_char c div 64, 128 + of_char c mod 64] \<and> \<not> (of_char c :: nat) < 128"
  by (simp add: utf8_char_def Let_def)

lemma div_mod_64_eq:
  fixes n m :: nat
  assumes "n div 64 = m div 64" and "n mod 64 = m mod 64"
  shows "n = m"
proof -
  have "n = 64 * (n div 64) + n mod 64" by simp
  also have "\<dots> = 64 * (m div 64) + m mod 64" using assms by simp
  also have "\<dots> = m" by simp
  finally show ?thesis .
qed

lemma of_char_div_mod_64_eq:
  assumes "(of_char c :: nat) div 64 = of_char d div 64"
      and "(of_char c :: nat) mod 64 = of_char d mod 64"
  shows "c = d"
proof -
  have "(of_char c :: nat) = of_char d"
    using assms by (rule div_mod_64_eq)
  then show ?thesis by simp
qed

lemma utf8_char_eq:
  assumes "utf8_char c @ xs = utf8_char d @ ys"
  shows "c = d \<and> xs = ys"
  using utf8_char_cases [of c] utf8_char_cases [of d] assms
  by (elim disjE conjE) (auto dest: of_char_div_mod_64_eq)

lemma utf8_char_nonempty: "utf8_char c \<noteq> []"
  using utf8_char_cases [of c] by auto

lemma encode_utf8_inject: "encode_utf8 a = encode_utf8 b \<Longrightarrow> a = b"
proof (induction a arbitrary: b)
  case Nil
  then show ?case
    by (cases b) (simp_all add: utf8_char_nonempty)
next
  case (Cons c cs)
  show ?case
  proof (cases b)
    case Nil
    with Cons.prems show ?thesis
      by (simp add: utf8_char_nonempty)
  next
    case (Cons d ds)
    with Cons.prems have "utf8_char c @ encode_utf8 cs = utf8_char d @ encode_utf8 ds"
      by simp
    then have "c = d" and "encode_utf8 cs = encode_utf8 ds"
      using utf8_char_eq by blast+
    with Cons.IH Cons show ?thesis by simp
  qed
qed

lemma compare_digest_encode [simp]:
  "compare_digest (encode_utf8 a) (encode_utf8 b) \<longleftrightarrow> a = b"
  unfolding compare_digest_def using encode_utf8_inject by blast

text \<open>
  C2. With an admin account configured, \<open>GET /users/me\<close> answers a credential pair that
  equals the configured username and password with that username, and every other pair
  with the 401 error that carries the \<open>WWW-Authenticate\<close> challenge; in both cases the
  request leaves no event behind.
\<close>

theorem users_me_iff_admin:
  assumes "users cfg ''username'' = Some correct_username"
      and "users cfg ''password'' = Some correct_password"
  shows "get_users_me cfg creds =
           (if username creds = correct_username \<and> password creds = correct_password
            then ([], Inr [''username'' \<mapsto> username creds])
            else ([], Inl (HTTPException 401 ''Incorrect username or password''
                             [(''WWW-Authenticate'', ''Basic'')])))"
  using assms
  by (simp add: get_users_me_def get_current_username_def read_current_user_def
      HTTP_401_UNAUTHORIZED_def)

theorem users_me_iff_admin_witness:
  "get_users_me sample_config \<lparr>username = ''admin'', password = ''s3cret''\<rparr> =
     ([], Inr [''username'' \<mapsto> ''admin'']) \<and>
   get_users_me sample_config \<lparr>username = ''admin'', password = ''guess''\<rparr> =
     ([], Inl (HTTPException 401 ''Incorrect username or password''
                 [(''WWW-Authenticate'', ''Basic'')]))"
proof -
  have u: "users sample_config ''username'' = Some ''admin''"
    by (simp add: sample_config_def)
  have p: "users sample_config ''password'' = Some ''s3cret''"
    by (simp add: sample_config_def)
  show ?thesis
    using users_me_iff_admin [OF u p, of "\<lparr>username = ''admin'', password = ''s3cret''\<rparr>"]
      users_me_iff_admin [OF u p, of "\<lparr>username = ''admin'', password = ''guess''\<rparr>"]
    by simp
qed

section \<open>The decimal text of an integer\<close>

lemma digit_cases:
  assumes "d < (10 :: nat)"
  shows "d = 0 \<or> d = 1 \<or> d = 2 \<or> d = 3 \<or> d = 4 \<or> d = 5 \<or> d = 6 \<or> d = 7 \<or> d = 8 \<or> d = 9"
  using assms by arith

lemma digit_value_digit_char:
  assumes "d < 10"
  shows "digit_value (digit_char d) = Some d"
  using digit_cases [OF assms]
  by (elim disjE) (simp_all add: digit_value_def digit_char_def)

lemma digit_char_zero:
  assumes "d < 10" and "digit_char d = CHR ''0''"
  shows "d = 0"
  using digit_cases [OF assms(1)] assms(2)
  by (elim disjE) (simp_all add: digit_char_def)

lemma digit_char_not_minus:
  assumes "d < 10"
  shows "digit_char d \<noteq> CHR ''-''"
  using digit_cases [OF assms]
  by (elim disjE) (simp_all add: digit_char_def)

lemma digits_value_snoc:
  "digits_value acc (cs @ [c]) =
     (case digits_value acc cs of
        None \<Rightarrow> None
      | Some m \<Rightarrow> (case digit_value c of None \<Rightarrow> None | Some d \<Rightarrow> Some (10 * m + d)))"
  by (induction cs arbitrary: acc) (simp_all split: option.splits)

lemma str_nat_nonempty: "str_nat n \<noteq> []"
  by (subst str_nat.simps) simp

lemma digits_value_str_nat: "digits_value 0 (str_nat n) = Some n"
proof (induction n rule: str_nat.induct)
  case (1 n)
  show ?case
  proof (cases "n < 10")
    case True
    then show ?thesis
      by (subst str_nat.simps) (simp add: digit_value_digit_char)
  next
    case False
    with 1 have "digits_value 0 (str_nat (n div 10)) = Some (n div 10)"
      by simp
    with False show ?thesis
      by (subst str_nat.simps) (simp add: digits_value_snoc digit_value_digit_char)
  qed
qed

lemma hd_str_nat_zero: "hd (str_nat n) = CHR ''0'' \<Longrightarrow> n = 0"
proof (induction n rule: str_nat.induct)
  case (1 n)
  show ?case
  proof (cases "n < 10")
    case True
    with "1.prems" show ?thesis
      by (subst (asm) str_nat.simps) (simp add: digit_char_zero)
  next
    case False
    with "1.prems" have "hd (str_nat (n div 10)) = CHR ''0''"
      by (subst (asm) str_nat.simps) (simp add: str_nat_nonempty)
    with 1 False have "n div 10 = 0"
      by simp
    with False show ?thesis
      by simp
  qed
qed

lemma hd_str_nat_not_minus: "hd (str_nat n) \<noteq> CHR ''-''"
proof (induction n rule: str_nat.induct)
  case (1 n)
  show ?case
  proof (cases "n < 10")
    case True
    then show ?thesis
      by (subst str_nat.simps) (simp add: digit_char_not_minus)
  next
    case False
    with 1 show ?thesis
      by (subst str_nat.simps) (simp add: str_nat_nonempty)
  qed
qed

lemma str_nat_zero: "str_nat 0 = ''0''"
  by (subst str_nat.simps) (simp add: digit_char_def)

lemma nat_of_decimal_str_nat: "nat_of_decimal (str_nat n) = Some n"
proof (cases "str_nat n")
  case Nil
  then show ?thesis
    by (simp add: str_nat_nonempty)
next
  case (Cons c cs)
  have "\<not> (c = CHR ''0'' \<and> cs \<noteq> [])"
  proof
    assume a: "c = CHR ''0'' \<and> cs \<noteq> []"
    with Cons have "hd (str_nat n) = CHR ''0''"
      by simp
    then have "n = 0"
      by (rule hd_str_nat_zero)
    with Cons a show False
      by (simp add: str_nat_zero)
  qed
  with Cons digits_value_str_nat [of n] show ?thesis
    by (simp add: nat_of_decimal_def)
qed

lemma int_of_decimal_str_int: "int_of_decimal (str_int i) = Some i"
proof (cases "i < 0")
  case True
  then show ?thesis
    by (simp add: str_int_def int_of_decimal_def nat_of_decimal_str_nat)
next
  case False
  obtain c cs where s: "str_nat (nat i) = c # cs"
    using str_nat_nonempty [of "nat i"] by (cases "str_nat (nat i)") auto
  with hd_str_nat_not_minus [of "nat i"] have "c \<noteq> CHR ''-''"
    by simp
  with False s nat_of_decimal_str_nat [of "nat i"] show ?thesis
    by (simp add: str_int_def int_of_decimal_def)
qed

section \<open>Dictionaries\<close>

lemma dict_set_fresh: "k \<notin> fst ` set d \<Longrightarrow> dict_set k v d = d @ [(k, v)]"
  by (induction d) auto

lemma dict_update_distinct:
  "distinct (map fst (d @ items)) \<Longrightarrow> dict_update d items = d @ items"
proof (induction items arbitrary: d)
  case Nil
  then show ?case by simp
next
  case (Cons kv items)
  obtain k v where kv: "kv = (k, v)"
    by (cases kv)
  from Cons.prems kv have fresh: "k \<notin> fst ` set d"
    by auto
  from Cons.prems kv have "distinct (map fst ((d @ [(k, v)]) @ items))"
    by simp
  then have "dict_update (d @ [(k, v)]) items = (d @ [(k, v)]) @ items"
    by (rule Cons.IH)
  with fresh kv show ?case
    by (simp add: dict_set_fresh)
qed

lemma map_of_dict_set: "map_of (dict_set k v d) = (map_of d)(k \<mapsto> v)"
  by (induction d) (auto simp: fun_eq_iff)

lemma map_of_dict_update: "map_of (dict_update d items) = map_of d ++ map_of (rev items)"
proof (induction items arbitrary: d)
  case Nil
  then show ?case by simp
next
  case (Cons kv items)
  obtain k v where kv: "kv = (k, v)"
    by (cases kv)
  have "map_of (dict_update (dict_set k v d) items) = map_of (dict_set k v d) ++ map_of (rev items)"
    by (rule Cons.IH)
  with kv show ?case
    by (simp add: map_of_dict_set map_add_def fun_eq_iff split: option.splits)
qed

lemma dict_of_row_distinct:
  "distinct (columns row) \<Longrightarrow> length (cells row) = length (columns row) \<Longrightarrow>
   dict_of_row row = zip (columns row) (cells row)"
  using dict_update_distinct [of "[]" "zip (columns row) (cells row)"]
  by (simp add: dict_of_row_def)

lemma map_of_dict_of_row:
  "map_of (dict_of_row row) = map_of (rev (zip (columns row) (cells row)))"
  by (simp add: dict_of_row_def map_of_dict_update)

section \<open>Rendering\<close>

lemma value_error_None: "value_error v = None \<longleftrightarrow> json_serialisable v"
  by (cases v rule: json_serialisable.cases) (simp_all add: value_error_def)

lemma first_error_None: "first_error es = None \<longleftrightarrow> (\<forall>e \<in> set es. e = None)"
  by (induction es rule: first_error.induct) simp_all

lemma dict_error_None: "dict_error d = None \<longleftrightarrow> (\<forall>v \<in> snd ` set d. json_serialisable v)"
  by (auto simp: dict_error_def first_error_None value_error_None)

lemma set_dict_set: "set (dict_set k v d) \<subseteq> insert (k, v) (set d)"
  by (induction d) (auto split: if_splits)

lemma set_dict_update: "set (dict_update d items) \<subseteq> set d \<union> set items"
proof (induction items arbitrary: d)
  case Nil
  then show ?case by simp
next
  case (Cons kv items)
  obtain k v where kv: "kv = (k, v)"
    by (cases kv)
  have "set (dict_update (dict_set k v d) items) \<subseteq> set (dict_set k v d) \<union> set items"
    by (rule Cons.IH)
  with set_dict_set [of k v d] kv show ?case
    by auto
qed

lemma keys_dict_set: "set (map fst (dict_set k v d)) = insert k (set (map fst d))"
proof (induction d)
  case Nil
  then show ?case by simp
next
  case (Cons a d)
  obtain k' v' where a: "a = (k', v')"
    by (cases a)
  show ?case
  proof (cases "k' = k")
    case True
    with a show ?thesis by simp
  next
    case False
    with a Cons.IH show ?thesis
      by (simp add: insert_commute)
  qed
qed

lemma distinct_dict_set: "distinct (map fst d) \<Longrightarrow> distinct (map fst (dict_set k v d))"
proof (induction d)
  case Nil
  then show ?case by simp
next
  case (Cons a d)
  obtain k' v' where a: "a = (k', v')"
    by (cases a)
  show ?case
  proof (cases "k' = k")
    case True
    with Cons.prems a show ?thesis by simp
  next
    case False
    from Cons.prems a have "k' \<notin> set (map fst d)" and "distinct (map fst d)"
      by auto
    with False Cons.IH a keys_dict_set [of k v d] show ?thesis
      by simp
  qed
qed

lemma distinct_dict_update: "distinct (map fst d) \<Longrightarrow> distinct (map fst (dict_update d items))"
proof (induction items arbitrary: d)
  case Nil
  then show ?case by simp
next
  case (Cons kv items)
  obtain k v where kv: "kv = (k, v)"
    by (cases kv)
  from Cons.prems have "distinct (map fst (dict_set k v d))"
    by (rule distinct_dict_set)
  then have "distinct (map fst (dict_update (dict_set k v d) items))"
    by (rule Cons.IH)
  with kv show ?case
    by simp
qed

lemma distinct_dict_of_row: "distinct (map fst (dict_of_row row))"
  by (simp add: dict_of_row_def distinct_dict_update)

lemma dict_of_row_serialisable:
  assumes "list_all json_serialisable (cells row)"
  shows "dict_error (dict_of_row row) = None"
proof -
  have "set (dict_of_row row) \<subseteq> set (zip (columns row) (cells row))"
    using set_dict_update [of "[]" "zip (columns row) (cells row)"]
    by (simp add: dict_of_row_def)
  then have "snd ` set (dict_of_row row) \<subseteq> snd ` set (zip (columns row) (cells row))"
    by (rule image_mono)
  also have "\<dots> \<subseteq> set (cells row)"
    by (auto dest: set_zip_rightD)
  finally show ?thesis
    using assms by (auto simp: dict_error_None list_all_iff)
qed

lemma keys_plain: "map (fst \<circ> (\<lambda>(k, v). (k, Plain v))) s = map fst s"
  by (induction s) auto

text \<open>The payload of a success, when the entry is a dictionary without the key \<open>data\<close>.\<close>

lemma success_payload:
  assumes "responses key = Some s" and "distinct (''data'' # map fst s)"
  shows "make_payload responses key d = Inr ((''data'', d) # map (\<lambda>(k, v). (k, Plain v)) s)"
proof -
  from assms(2) have "distinct (map fst ([(''data'', d)] @ map (\<lambda>(k, v). (k, Plain v)) s))"
    by (simp add: keys_plain)
  then have "dict_update [(''data'', d)] (map (\<lambda>(k, v). (k, Plain v)) s) =
               [(''data'', d)] @ map (\<lambda>(k, v). (k, Plain v)) s"
    by (rule dict_update_distinct)
  with assms(1) show ?thesis
    by (simp add: make_payload_def)
qed

lemma dumps_success_payload:
  assumes "list_all (\<lambda>(k, v). json_serialisable v) s"
      and "list_all (\<lambda>d. dict_error d = None) ds"
  shows "dumps_error ((''data'', Records ds) # map (\<lambda>(k, v). (k, Plain v)) s) = None"
  using assms
  by (auto simp: dumps_error_def first_error_None pvalue_error_def value_error_None
      list_all_iff)

section \<open>What \<open>get_data\<close> returns\<close>

lemma try_block_connect_fails:
  "connect eng = Some e \<Longrightarrow>
   try_block responses eng q =
     ([LogInfo ''fetching records from the database...'', Connect], Inl e)"
  by (simp add: try_block_def)

lemma try_block_execute_fails:
  "connect eng = None \<Longrightarrow> execute eng (TextClause q) = Inl e \<Longrightarrow>
   try_block responses eng q =
     ([LogInfo ''fetching records from the database...'', Connect, Execute (TextClause q)],
      Inl e)"
  by (simp add: try_block_def)

lemma try_block_answers:
  "connect eng = None \<Longrightarrow> execute eng (TextClause q) = Inr res \<Longrightarrow>
   try_block responses eng q =
     ([LogInfo ''fetching records from the database...'', Connect, Execute (TextClause q)] @
        (if length res = 0 then [LogWarning ''no records returned''] else []),
      case make_payload responses ''SUCCESS'' (Records (map dict_of_row res)) of
        Inl e \<Rightarrow> Inl e
      | Inr payload \<Rightarrow> Inr (payload, 200))"
  by (simp add: try_block_def HTTP_200_OK_def Let_def split: sum.splits)

lemma make_payload_error: "make_payload responses key d = Inl e \<Longrightarrow> e = TypeError"
  by (simp add: make_payload_def split: option.splits)

lemma executed_append: "executed (xs @ ys) = executed xs @ executed ys"
  by (induction xs rule: executed.induct) simp_all

lemma executed_try_block:
  "connect eng = None \<Longrightarrow> executed (fst (try_block responses eng q)) = [q]"
  by (cases "execute eng (TextClause q)")
     (simp_all add: try_block_execute_fails try_block_answers)

lemma fst_get_data:
  "fst (get_data responses eng p) = fst (try_block responses eng (build_query p)) \<or>
   (\<exists>e. fst (get_data responses eng p) =
          fst (try_block responses eng (build_query p)) @ [LogException e])"
  by (auto simp: get_data_def Let_def split: prod.splits sum.splits exn.splits)

lemma executed_get_data:
  assumes "connect eng = None"
  shows "executed (fst (get_data responses eng p)) = [build_query p]"
  using fst_get_data [of responses eng p] executed_try_block [OF assms, of responses "build_query p"]
  by (auto simp: executed_append)

lemma get_data_connect_fails:
  assumes "connect eng = Some e" and "\<forall>c d h. e \<noteq> HTTPException c d h"
  shows "get_data responses eng p =
           ([LogInfo ''fetching records from the database...'', Connect], Inl e)"
  using assms by (cases e) (simp_all add: get_data_def try_block_connect_fails)

lemma get_data_execute_fails:
  assumes "connect eng = None" and "execute eng (TextClause (build_query p)) = Inl e"
      and "\<forall>c d h. e \<noteq> HTTPException c d h"
  shows "get_data responses eng p =
           ([LogInfo ''fetching records from the database...'', Connect,
             Execute (TextClause (build_query p))], Inl e)"
  using assms by (cases e) (simp_all add: get_data_def try_block_execute_fails)

lemma get_data_answers:
  assumes "connect eng = None" and "execute eng (TextClause (build_query p)) = Inr res"
      and "make_payload responses ''SUCCESS'' (Records (map dict_of_row res)) = Inr payload"
  shows "get_data responses eng p =
           ([LogInfo ''fetching records from the database...'', Connect,
             Execute (TextClause (build_query p))] @
              (if length res = 0 then [LogWarning ''no records returned''] else []),
            JSONResponse_init payload 200)"
  using assms by (simp add: get_data_def try_block_answers)

lemma get_data_no_success:
  assumes "connect eng = None" and "execute eng (TextClause (build_query p)) = Inr res"
      and "responses ''SUCCESS'' = None"
  shows "get_data responses eng p =
           ([LogInfo ''fetching records from the database...'', Connect,
             Execute (TextClause (build_query p))] @
              (if length res = 0 then [LogWarning ''no records returned''] else []),
            Inl TypeError)"
  using assms by (simp add: get_data_def try_block_answers make_payload_def)

text \<open>The \<open>except\<close> clause at work: were the store to raise an \<open>HTTPException\<close>.\<close>

lemma get_data_except_branch:
  assumes "connect eng = None"
      and "execute eng (TextClause (build_query p)) = Inl (HTTPException c d h)"
      and "responses ''ERROR'' = Some s" and "distinct (''data'' # map fst s)"
      and "list_all (\<lambda>(k, v). json_serialisable v) s"
  shows "get_data responses eng p =
           ([LogInfo ''fetching records from the database...'', Connect,
             Execute (TextClause (build_query p)), LogException (HTTPException c d h)],
            Inr \<lparr>content = (''data'', Plain PyNone) # map (\<lambda>(k, v). (k, Plain v)) s,
                 status_code = 400\<rparr>)"
proof -
  have "dumps_error ((''data'', Plain PyNone) # map (\<lambda>(k, v). (k, Plain v)) s) = None"
    using assms(5)
    by (auto simp: dumps_error_def first_error_None pvalue_error_def value_error_None
        list_all_iff)
  then show ?thesis
    using assms(1,2) success_payload [where responses = responses and key = "''ERROR''" and d = "Plain PyNone",
        OF assms(3,4)]
    by (simp add: get_data_def try_block_execute_fails JSONResponse_init_def
        HTTP_400_BAD_REQUEST_def)
qed

lemma get_data_success:
  assumes "connect eng = None" and "execute eng (TextClause (build_query p)) = Inr res"
      and "responses ''SUCCESS'' = Some s" and "distinct (''data'' # map fst s)"
      and "list_all (\<lambda>(k, v). json_serialisable v) s"
      and "list_all (\<lambda>row. list_all json_serialisable (cells row)) res"
  shows "get_data responses eng p =
           ([LogInfo ''fetching records from the database...'', Connect,
             Execute (TextClause (build_query p))] @
              (if length res = 0 then [LogWarning ''no records returned''] else []),
            Inr \<lparr>content = (''data'', Records (map dict_of_row res)) #
                             map (\<lambda>(k, v). (k, Plain v)) s,
                 status_code = 200\<rparr>)"
proof -
  have "list_all (\<lambda>d. dict_error d = None) (map dict_of_row res)"
    using assms(6) by (simp add: list_all_iff dict_of_row_serialisable)
  with assms(5)
  have "dumps_error ((''data'', Records (map dict_of_row res)) #
          map (\<lambda>(k, v). (k, Plain v)) s) = None"
    by (rule dumps_success_payload)
  then show ?thesis
    using get_data_answers [OF assms(1,2)
        success_payload [where responses = responses and key = "''SUCCESS''", OF assms(3,4)]]
    by (simp add: JSONResponse_init_def)
qed

lemma post_get_data_passes:
  "get_current_username cfg creds = Inr u \<Longrightarrow> validate (table_name cfg) b = Inr p \<Longrightarrow>
   post_get_data cfg responses eng True creds b = get_data responses eng p"
  by (simp add: post_get_data_def)

lemma sqlite_limit_fewer: "int (length rows) < n \<Longrightarrow> sqlite_limit n rows = rows"
  by (simp add: sqlite_limit_def)

lemma map_dict_of_row_distinct:
  "list_all (\<lambda>row. distinct (columns row) \<and> length (cells row) = length (columns row)) rows \<Longrightarrow>
   map dict_of_row rows = map (\<lambda>row. zip (columns row) (cells row)) rows"
  by (induction rows) (simp_all add: dict_of_row_distinct)

section \<open>Facts about the sample deployment\<close>

lemma admin_passes: "get_current_username sample_config sample_admin = Inr ''admin''"
  by (simp add: get_current_username_def sample_config_def sample_admin_def compare_digest_def)

lemma validate_sample:
  "validate (table_name sample_config) (sample_body l) =
     (case limit_field l of
        None \<Rightarrow> Inl [''limit'']
      | Some v \<Rightarrow> Inr (sample_params v))"
  by (simp add: validate_def sample_config_def sample_body_def sample_params_def
      source_table_field_def index_field_def date_field_def failed_def split: option.splits)

lemma sample_body_valid:
  "validate (table_name sample_config) (sample_body (Val 5)) = Inr (sample_params (Some 5))"
  by (simp add: validate_sample limit_field_def)

lemma sample_query_5: "build_query (sample_params (Some 5)) = ''SELECT * FROM events LIMIT 5''"
  by (simp add: build_query_def sample_params_def str_limit_def str_int_def str_nat.simps
      digit_char_def)


lemma sample_success_entry: "sample_responses ''SUCCESS'' = Some sample_success"
  by (simp add: sample_responses_def)

lemma sample_success_dict: "distinct (''data'' # map fst sample_success)"
  by (simp add: sample_success_def)

lemma sample_success_serialisable: "list_all (\<lambda>(k, v). json_serialisable v) sample_success"
  by (simp add: sample_success_def)

lemma sample_store_connects: "connect (sample_store known n rows) = None"
  by (simp add: sample_store_def)

lemma sample_store_known:
  "execute (sample_store known n rows) (TextClause known) = Inr (sqlite_limit n rows)"
  by (simp add: sample_store_def)

lemma sample_rows_serialisable:
  "list_all (\<lambda>row. list_all json_serialisable (cells row)) sample_rows"
  by (simp add: sample_rows_def)

lemma sample_rows_wellformed:
  "list_all (\<lambda>row. distinct (columns row) \<and> length (cells row) = length (columns row)) sample_rows"
  by (simp add: sample_rows_def)

section \<open>The query and its rows\<close>

text \<open>
  C1, as the code has it. For a request that passes the credential check, validation and
  the rate limiter, and whose connection opens: the one statement handed to the
  connection is the text \<open>SELECT * FROM <source_table> LIMIT <limit>\<close>, with the
  request's \<open>source_table\<close> and with its \<open>limit\<close> as a decimal numeral (\<open>None\<close> for
  no limit). When the store answers, \<open>SUCCESS\<close> is a dictionary without the key
  \<open>data\<close>, and every value is one the encoder accepts, the response is the 200 one
  with the \<open>SUCCESS\<close> fields, and \<open>data\<close> holds one record per row, in order, that
  maps each column name to the row's value in that column (the last one, if the name is
  repeated). When the table holds fewer rows than \<open>limit\<close> and the rows have distinct
  column names, \<open>data\<close> is exactly those rows in order.
\<close>

theorem get_data_runs_select_and_returns_rows:
  assumes "get_current_username cfg creds = Inr u"
      and "validate (table_name cfg) b = Inr p"
      and "connect eng = None"
  shows "(\<exists>t. executed (fst (post_get_data cfg responses eng True creds b)) =
               [''SELECT * FROM '' @ source_table p @ '' LIMIT '' @ t] \<and>
             (case limit p of None \<Rightarrow> t = ''None'' | Some n \<Rightarrow> int_of_decimal t = Some n)) \<and>
         (\<forall>res s. execute eng (TextClause (build_query p)) = Inr res \<longrightarrow>
            responses ''SUCCESS'' = Some s \<longrightarrow> distinct (''data'' # map fst s) \<longrightarrow>
            list_all (\<lambda>(k, v). json_serialisable v) s \<longrightarrow>
            list_all (\<lambda>row. list_all json_serialisable (cells row)) res \<longrightarrow>
            (\<exists>ds. snd (post_get_data cfg responses eng True creds b) =
                     Inr \<lparr>content = (''data'', Records ds) # map (\<lambda>(k, v). (k, Plain v)) s,
                          status_code = 200\<rparr> \<and>
                  length ds = length res \<and>
                  (\<forall>i < length res.
                     distinct (map fst (ds ! i)) \<and>
                     map_of (ds ! i) =
                       map_of (rev (zip (columns (res ! i)) (cells (res ! i))))))) \<and>
         (\<forall>n rows s. limit p = Some n \<longrightarrow> int (length rows) < n \<longrightarrow>
            execute eng (TextClause (build_query p)) = Inr (sqlite_limit n rows) \<longrightarrow>
            responses ''SUCCESS'' = Some s \<longrightarrow> distinct (''data'' # map fst s) \<longrightarrow>
            list_all (\<lambda>(k, v). json_serialisable v) s \<longrightarrow>
            list_all (\<lambda>row. list_all json_serialisable (cells row)) rows \<longrightarrow>
            list_all (\<lambda>row. distinct (columns row) \<and> length (cells row) = length (columns row))
              rows \<longrightarrow>
            snd (post_get_data cfg responses eng True creds b) =
              Inr \<lparr>content = (''data'', Records (map (\<lambda>row. zip (columns row) (cells row)) rows)) #
                               map (\<lambda>(k, v). (k, Plain v)) s,
                   status_code = 200\<rparr>)"
proof (intro conjI allI impI)
  have "executed (fst (post_get_data cfg responses eng True creds b)) =
          [''SELECT * FROM '' @ source_table p @ '' LIMIT '' @ str_limit (limit p)]"
    using assms by (simp add: post_get_data_passes executed_get_data build_query_def)
  moreover have "case limit p of None \<Rightarrow> str_limit (limit p) = ''None''
                 | Some n \<Rightarrow> int_of_decimal (str_limit (limit p)) = Some n"
    by (simp add: str_limit_def int_of_decimal_str_int split: option.splits)
  ultimately show "\<exists>t. executed (fst (post_get_data cfg responses eng True creds b)) =
               [''SELECT * FROM '' @ source_table p @ '' LIMIT '' @ t] \<and>
             (case limit p of None \<Rightarrow> t = ''None'' | Some n \<Rightarrow> int_of_decimal t = Some n)"
    by blast
next
  fix res s
  assume "execute eng (TextClause (build_query p)) = Inr res"
     and "responses ''SUCCESS'' = Some s" and "distinct (''data'' # map fst s)"
     and "list_all (\<lambda>(k, v). json_serialisable v) s"
     and "list_all (\<lambda>row. list_all json_serialisable (cells row)) res"
  then have "snd (post_get_data cfg responses eng True creds b) =
               Inr \<lparr>content = (''data'', Records (map dict_of_row res)) #
                                map (\<lambda>(k, v). (k, Plain v)) s,
                    status_code = 200\<rparr>"
    using assms get_data_success [of eng p res responses s]
    by (simp add: post_get_data_passes)
  moreover have "\<forall>i < length res.
                   distinct (map fst (map dict_of_row res ! i)) \<and>
                   map_of (map dict_of_row res ! i) =
                     map_of (rev (zip (columns (res ! i)) (cells (res ! i))))"
    by (simp add: distinct_dict_of_row map_of_dict_of_row)
  ultimately show "\<exists>ds. snd (post_get_data cfg responses eng True creds b) =
                     Inr \<lparr>content = (''data'', Records ds) # map (\<lambda>(k, v). (k, Plain v)) s,
                          status_code = 200\<rparr> \<and>
                  length ds = length res \<and>
                  (\<forall>i < length res.
                     distinct (map fst (ds ! i)) \<and>
                     map_of (ds ! i) =
                       map_of (rev (zip (columns (res ! i)) (cells (res ! i)))))"
    by (intro exI [of _ "map dict_of_row res"]) simp
next
  fix n rows s
  assume "limit p = Some n" and "int (length rows) < n"
     and "execute eng (TextClause (build_query p)) = Inr (sqlite_limit n rows)"
     and "responses ''SUCCESS'' = Some s" and "distinct (''data'' # map fst s)"
     and "list_all (\<lambda>(k, v). json_serialisable v) s"
     and "list_all (\<lambda>row. list_all json_serialisable (cells row)) rows"
     and wf: "list_all (\<lambda>row. distinct (columns row) \<and> length (cells row) = length (columns row))
              rows"
  then show "snd (post_get_data cfg responses eng True creds b) =
              Inr \<lparr>content = (''data'', Records (map (\<lambda>row. zip (columns row) (cells row)) rows)) #
                               map (\<lambda>(k, v). (k, Plain v)) s,
                   status_code = 200\<rparr>"
    using assms get_data_success [of eng p rows responses s] map_dict_of_row_distinct [OF wf]
    by (simp add: post_get_data_passes sqlite_limit_fewer)
qed

text \<open>
  The sample table of three rows with \<open>limit = 5\<close>.
\<close>

theorem get_data_runs_select_and_returns_rows_witness:
  "get_current_username sample_config sample_admin = Inr ''admin'' \<and>
   validate (table_name sample_config) (sample_body (Val 5)) = Inr (sample_params (Some 5)) \<and>
   connect (sample_store ''SELECT * FROM events LIMIT 5'' 5 sample_rows) = None \<and>
   int (length sample_rows) < 5 \<and>
   executed (fst (post_get_data sample_config sample_responses
       (sample_store ''SELECT * FROM events LIMIT 5'' 5 sample_rows) True sample_admin
       (sample_body (Val 5))))
     = [''SELECT * FROM events LIMIT 5''] \<and>
   snd (post_get_data sample_config sample_responses
       (sample_store ''SELECT * FROM events LIMIT 5'' 5 sample_rows) True sample_admin
       (sample_body (Val 5)))
     = Inr \<lparr>content =
              [(''data'', Records [[(''id'', PyInt 1), (''qty'', PyInt 10)],
                                   [(''id'', PyInt 2), (''qty'', PyInt 20)],
                                   [(''id'', PyInt 3), (''qty'', PyInt 30)]]),
               (''message'', Plain (PyStr ''ok'')), (''code'', Plain (PyStr ''00''))],
            status_code = 200\<rparr>"
proof -
  let ?eng = "sample_store ''SELECT * FROM events LIMIT 5'' 5 sample_rows"
  let ?R = "post_get_data sample_config sample_responses ?eng True sample_admin
              (sample_body (Val 5))"
  have h3: "connect ?eng = None"
    by (rule sample_store_connects)
  have h4: "limit (sample_params (Some 5)) = Some 5"
    by (simp add: sample_params_def)
  have h5: "int (length sample_rows) < 5"
    by (simp add: sample_rows_def)
  have h6: "execute ?eng (TextClause (build_query (sample_params (Some 5)))) =
              Inr (sqlite_limit 5 sample_rows)"
    by (simp add: sample_query_5 sample_store_known)
  note T = get_data_runs_select_and_returns_rows [OF admin_passes sample_body_valid h3,
      where responses = sample_responses]
  from T obtain t where
    A: "executed (fst ?R) =
          [''SELECT * FROM '' @ source_table (sample_params (Some 5)) @ '' LIMIT '' @ t]"
    and B: "case limit (sample_params (Some 5)) of None \<Rightarrow> t = ''None''
            | Some n \<Rightarrow> int_of_decimal t = Some n"
    by blast
  from T have "\<forall>n rows s. limit (sample_params (Some 5)) = Some n \<longrightarrow> int (length rows) < n \<longrightarrow>
            execute ?eng (TextClause (build_query (sample_params (Some 5)))) =
              Inr (sqlite_limit n rows) \<longrightarrow>
            sample_responses ''SUCCESS'' = Some s \<longrightarrow> distinct (''data'' # map fst s) \<longrightarrow>
            list_all (\<lambda>(k, v). json_serialisable v) s \<longrightarrow>
            list_all (\<lambda>row. list_all json_serialisable (cells row)) rows \<longrightarrow>
            list_all (\<lambda>row. distinct (columns row) \<and> length (cells row) = length (columns row))
              rows \<longrightarrow>
            snd ?R =
              Inr \<lparr>content = (''data'', Records (map (\<lambda>row. zip (columns row) (cells row)) rows)) #
                               map (\<lambda>(k, v). (k, Plain v)) s,
                   status_code = 200\<rparr>"
    by (elim conjE)
  with h4 h5 h6 sample_success_entry sample_success_dict sample_success_serialisable
    sample_rows_serialisable sample_rows_wellformed
  have C: "snd ?R =
             Inr \<lparr>content = (''data'', Records (map (\<lambda>row. zip (columns row) (cells row))
                                sample_rows)) #
                              map (\<lambda>(k, v). (k, Plain v)) sample_success,
                  status_code = 200\<rparr>"
    by blast
  have D: "executed (fst ?R) = [''SELECT * FROM events LIMIT 5'']"
    using executed_get_data [OF h3, of sample_responses "sample_params (Some 5)"]
      post_get_data_passes [OF admin_passes sample_body_valid, of sample_responses ?eng]
    by (simp add: sample_query_5)
  from C have "snd ?R =
     Inr \<lparr>content =
              [(''data'', Records [[(''id'', PyInt 1), (''qty'', PyInt 10)],
                                   [(''id'', PyInt 2), (''qty'', PyInt 20)],
                                   [(''id'', PyInt 3), (''qty'', PyInt 30)]]),
               (''message'', Plain (PyStr ''ok'')), (''code'', Plain (PyStr ''00''))],
            status_code = 200\<rparr>"
    by (simp add: sample_rows_def sample_success_def)
  with admin_passes sample_body_valid h3 h5 D show ?thesis
    by simp
qed

lemma blob_query_answered:
  "execute (sample_store ''SELECT * FROM events LIMIT 5'' 5 blob_rows)
     (TextClause (build_query (sample_params (Some 5)))) = Inr blob_rows"
  by (simp add: sample_query_5 sample_store_known sqlite_limit_def blob_rows_def)

text \<open>
  The specification's wording of C1 fails twice. A table of one row (fewer than the limit of 5) that
  holds a BLOB: the store answers, but building the response raises \<open>TypeError\<close>, and
  the request ends with status 500, not 200. And a database that cannot be opened: the
  request passes everything, yet no statement is executed.
\<close>

theorem get_data_not_always_200:
  "get_current_username sample_config sample_admin = Inr ''admin'' \<and>
   validate (table_name sample_config) (sample_body (Val 5)) = Inr (sample_params (Some 5)) \<and>
   int (length blob_rows) < 5 \<and>
   execute (sample_store ''SELECT * FROM events LIMIT 5'' 5 blob_rows)
     (TextClause ''SELECT * FROM events LIMIT 5'') = Inr blob_rows \<and>
   snd (post_get_data sample_config sample_responses
          (sample_store ''SELECT * FROM events LIMIT 5'' 5 blob_rows) True sample_admin
          (sample_body (Val 5))) = Inl TypeError \<and>
   http_status (snd (post_get_data sample_config sample_responses
          (sample_store ''SELECT * FROM events LIMIT 5'' 5 blob_rows) True sample_admin
          (sample_body (Val 5)))) = 500 \<and>
   executed (fst (post_get_data sample_config sample_responses unreachable_store True
          sample_admin (sample_body (Val 5)))) = []"
proof -
  let ?eng = "sample_store ''SELECT * FROM events LIMIT 5'' 5 blob_rows"
  have p: "make_payload sample_responses ''SUCCESS'' (Records (map dict_of_row blob_rows)) =
             Inr ((''data'', Records (map dict_of_row blob_rows)) #
                  map (\<lambda>(k, v). (k, Plain v)) sample_success)"
    using sample_success_entry sample_success_dict by (rule success_payload)
  have "get_data sample_responses ?eng (sample_params (Some 5)) =
          ([LogInfo ''fetching records from the database...'', Connect,
            Execute (TextClause (build_query (sample_params (Some 5))))] @
             (if length blob_rows = 0 then [LogWarning ''no records returned''] else []),
           JSONResponse_init ((''data'', Records (map dict_of_row blob_rows)) #
                  map (\<lambda>(k, v). (k, Plain v)) sample_success) 200)"
    using sample_store_connects blob_query_answered p by (rule get_data_answers)
  moreover have "JSONResponse_init ((''data'', Records (map dict_of_row blob_rows)) #
                  map (\<lambda>(k, v). (k, Plain v)) sample_success) 200 = Inl TypeError"
    by (simp add: JSONResponse_init_def dumps_error_def pvalue_error_def dict_error_def
        dict_of_row_def value_error_def blob_rows_def sample_success_def)
  ultimately have A: "snd (post_get_data sample_config sample_responses ?eng True sample_admin
                        (sample_body (Val 5))) = Inl TypeError"
    using post_get_data_passes [OF admin_passes sample_body_valid, of sample_responses ?eng]
    by simp
  have "connect unreachable_store =
          Some (StoreError (SQLAlchemyError ''unable to open database file''))"
    by (simp add: unreachable_store_def)
  then have "get_data sample_responses unreachable_store (sample_params (Some 5)) =
          ([LogInfo ''fetching records from the database...'', Connect],
           Inl (StoreError (SQLAlchemyError ''unable to open database file'')))"
    by (rule get_data_connect_fails) simp
  then have B: "executed (fst (post_get_data sample_config sample_responses unreachable_store
                  True sample_admin (sample_body (Val 5)))) = []"
    using post_get_data_passes [OF admin_passes sample_body_valid,
        of sample_responses unreachable_store]
    by simp
  have C: "execute ?eng (TextClause ''SELECT * FROM events LIMIT 5'') = Inr blob_rows"
    using blob_query_answered by (simp add: sample_query_5)
  have "int (length blob_rows) < 5"
    by (simp add: blob_rows_def)
  with A B C admin_passes sample_body_valid show ?thesis
    by (simp add: http_status_def)
qed

section \<open>An empty table\<close>




section \<open>Failures of the store\<close>





text \<open>
  C4. The store does not know the table \<open>missing\<close> and raises. \<open>get_data\<close> does
  not catch the exception: the request ends with it, status 500, where the \<open>except\<close>
  clause was written to answer 400 with the \<open>ERROR\<close> fields.
\<close>

theorem store_failure_leaves_get_data:
  "post_get_data sample_config sample_responses
     (sample_store ''SELECT * FROM events LIMIT 5'' 5 sample_rows) True sample_admin
     ((sample_body (Val 5))\<lparr>body_source_table := Val ''missing''\<rparr>) =
     ([LogInfo ''fetching records from the database...'', Connect,
       Execute (TextClause ''SELECT * FROM missing LIMIT 5'')],
      Inl (StoreError (SQLAlchemyError ''no such table''))) \<and>
   http_status (snd (post_get_data sample_config sample_responses
     (sample_store ''SELECT * FROM events LIMIT 5'' 5 sample_rows) True sample_admin
     ((sample_body (Val 5))\<lparr>body_source_table := Val ''missing''\<rparr>))) = 500"
proof -
  let ?eng = "sample_store ''SELECT * FROM events LIMIT 5'' 5 sample_rows"
  let ?b = "(sample_body (Val 5))\<lparr>body_source_table := Val ''missing''\<rparr>"
  let ?p = "(sample_params (Some 5))\<lparr>source_table := ''missing''\<rparr>"
  have v: "validate (table_name sample_config) ?b = Inr ?p"
    by (simp add: validate_def sample_config_def sample_body_def sample_params_def
      source_table_field_def index_field_def limit_field_def date_field_def failed_def)
  have q: "build_query ?p = ''SELECT * FROM missing LIMIT 5''"
    by (simp add: build_query_def sample_params_def str_limit_def str_int_def str_nat.simps
        digit_char_def)
  have e: "execute ?eng (TextClause (build_query ?p)) =
             Inl (StoreError (SQLAlchemyError ''no such table''))"
    by (simp add: q sample_store_def)
  have "get_data sample_responses ?eng ?p =
          ([LogInfo ''fetching records from the database...'', Connect,
            Execute (TextClause (build_query ?p))],
           Inl (StoreError (SQLAlchemyError ''no such table'')))"
    using sample_store_connects e by (rule get_data_execute_fails) simp
  then show ?thesis
    using q post_get_data_passes [OF admin_passes v, of sample_responses ?eng]
    by (simp add: http_status_def)
qed

text \<open>
  C3. \<open>limit = -1\<close> passes validation, the query ends in \<open>LIMIT -1\<close>, and the
  store answers it with every row of the table: here 1001 of them, more than the bound
  of 1000 that the field declares.
\<close>

theorem negative_limit_fetches_every_row:
  "validate (table_name sample_config) (sample_body (Val (- 1))) = Inr (sample_params (Some (- 1))) \<and>
   build_query (sample_params (Some (- 1))) = ''SELECT * FROM events LIMIT -1'' \<and>
   snd (post_get_data sample_config sample_responses
          (sample_store ''SELECT * FROM events LIMIT -1'' (- 1)
             (replicate 1001 \<lparr>columns = [''id''], cells = [PyInt 0]\<rparr>))
          True sample_admin (sample_body (Val (- 1)))) =
     Inr \<lparr>content = [(''data'', Records (replicate 1001 [(''id'', PyInt 0)])),
                      (''message'', Plain (PyStr ''ok'')), (''code'', Plain (PyStr ''00''))],
          status_code = 200\<rparr>"
proof -
  let ?rows = "replicate 1001 \<lparr>columns = [''id''], cells = [PyInt 0]\<rparr>"
  let ?eng = "sample_store ''SELECT * FROM events LIMIT -1'' (- 1) ?rows"
  have v: "validate (table_name sample_config) (sample_body (Val (- 1))) =
             Inr (sample_params (Some (- 1)))"
    by (simp add: validate_sample limit_field_def)
  have q: "build_query (sample_params (Some (- 1))) = ''SELECT * FROM events LIMIT -1''"
    by (simp add: build_query_def sample_params_def str_limit_def str_int_def str_nat.simps
        digit_char_def)
  have e: "execute ?eng (TextClause (build_query (sample_params (Some (- 1))))) = Inr ?rows"
    by (simp add: q sample_store_def sqlite_limit_def)
  have s: "list_all (\<lambda>row. list_all json_serialisable (cells row)) ?rows"
    by (simp add: list_all_iff)
  have "get_data sample_responses ?eng (sample_params (Some (- 1))) =
           ([LogInfo ''fetching records from the database...'', Connect,
             Execute (TextClause (build_query (sample_params (Some (- 1)))))] @
              (if length ?rows = 0 then [LogWarning ''no records returned''] else []),
            Inr \<lparr>content = (''data'', Records (map dict_of_row ?rows)) #
                             map (\<lambda>(k, v). (k, Plain v)) sample_success,
                 status_code = 200\<rparr>)"
    using sample_store_connects e sample_success_entry sample_success_dict
      sample_success_serialisable s
    by (rule get_data_success)
  then show ?thesis
    using v q post_get_data_passes [OF admin_passes v, of sample_responses ?eng]
    by (simp add: dict_of_row_def sample_success_def)
qed

lemma validate_source_table:
  "validate dflt b = Inr p \<Longrightarrow> source_table_field dflt (body_source_table b) = Some (source_table p)"
  by (auto simp: validate_def Let_def split: option.splits)

lemma validate_limit:
  "validate dflt b = Inr p \<Longrightarrow> limit_field (body_limit b) = Some (limit p)"
  by (auto simp: validate_def Let_def split: option.splits)

lemma get_data_cong:
  "source_table p = source_table p' \<Longrightarrow> limit p = limit p' \<Longrightarrow>
   get_data responses eng p = get_data responses eng p'"
  by (simp add: get_data_def build_query_def)

lemma failed_nonempty: "failed name None = [name]"
  by (simp add: failed_def)

lemma validate_limit_rejected:
  assumes "limit_field (body_limit b) = None"
  shows "\<exists>errors. validate dflt b = Inl errors \<and> ''limit'' \<in> set errors"
  using assms by (simp add: validate_def Let_def failed_nonempty split: option.splits)

lemma validate_start_index_rejected:
  assumes "index_field (body_start_index b) = None"
  shows "\<exists>errors. validate dflt b = Inl errors \<and> ''start_index'' \<in> set errors"
  using assms by (simp add: validate_def Let_def failed_nonempty split: option.splits)

lemma validate_end_index_rejected:
  assumes "index_field (body_end_index b) = None"
  shows "\<exists>errors. validate dflt b = Inl errors \<and> ''end_index'' \<in> set errors"
  using assms by (simp add: validate_def Let_def failed_nonempty split: option.splits)

lemma post_get_data_invalid:
  assumes "validate (table_name cfg) b = Inl errors"
  shows "fst (post_get_data cfg responses eng within_limits creds b) = []"
    and "\<exists>e. snd (post_get_data cfg responses eng within_limits creds b) = Inl e"
    and "get_current_username cfg creds = Inr u \<Longrightarrow>
         post_get_data cfg responses eng within_limits creds b =
           ([], Inl (RequestValidationError errors))"
  using assms
  by (cases "get_current_username cfg creds"; simp add: post_get_data_def)+

text \<open>What \<open>le=1000\<close> gives: an accepted integer limit is at most 1000.\<close>

lemma accepted_limit_at_most_1000:
  "validate dflt b = Inr p \<Longrightarrow> limit p = Some n \<Longrightarrow> n \<le> 1000"
  using validate_limit [of dflt b p]
  by (cases "body_limit b") (auto simp: limit_field_def split: if_splits)

section \<open>Validation and the unused parameters\<close>

text \<open>
  C7. Two valid bodies that agree on \<open>source_table\<close> and \<open>limit\<close> lead to the same
  query text and to the same outcome of the request, events included, whatever their
  \<open>start_index\<close>, \<open>end_index\<close>, \<open>start_date\<close> and \<open>end_date\<close>.
\<close>

theorem pagination_and_dates_ignored:
  assumes "validate (table_name cfg) b = Inr p"
      and "validate (table_name cfg) b' = Inr p'"
      and "body_source_table b = body_source_table b'"
      and "body_limit b = body_limit b'"
  shows "build_query p = build_query p' \<and>
         post_get_data cfg responses eng within_limits creds b =
         post_get_data cfg responses eng within_limits creds b'"
proof -
  have st: "source_table p = source_table p'"
    using validate_source_table [OF assms(1)] validate_source_table [OF assms(2)] assms(3)
    by simp
  have li: "limit p = limit p'"
    using validate_limit [OF assms(1)] validate_limit [OF assms(2)] assms(4)
    by simp
  have "get_data responses eng p = get_data responses eng p'"
    using st li by (rule get_data_cong)
  then have "post_get_data cfg responses eng within_limits creds b =
         post_get_data cfg responses eng within_limits creds b'"
    using assms(1,2)
    by (cases "get_current_username cfg creds") (simp_all add: post_get_data_def)
  then show ?thesis
    using st li by (simp add: build_query_def)
qed

theorem pagination_and_dates_ignored_witness:
  "validate (table_name sample_config) (sample_body (Val 5)) = Inr (sample_params (Some 5)) \<and>
   validate (table_name sample_config)
     ((sample_body (Val 5))\<lparr>body_start_index := Val 7, body_end_index := Val 9,
        body_start_date := Val ''2024-01-01'', body_end_date := Val ''2024-12-31''\<rparr>) =
     Inr ((sample_params (Some 5))\<lparr>start_index := 7, end_index := 9,
        start_date := Some ''2024-01-01'', end_date := Some ''2024-12-31''\<rparr>) \<and>
   post_get_data sample_config sample_responses
     (sample_store ''SELECT * FROM events LIMIT 5'' 5 sample_rows) True sample_admin (sample_body (Val 5)) =
   post_get_data sample_config sample_responses
     (sample_store ''SELECT * FROM events LIMIT 5'' 5 sample_rows) True sample_admin
     ((sample_body (Val 5))\<lparr>body_start_index := Val 7, body_end_index := Val 9,
        body_start_date := Val ''2024-01-01'', body_end_date := Val ''2024-12-31''\<rparr>)"
proof -
  let ?b = "sample_body (Val 5)"
  let ?b' = "(sample_body (Val 5))\<lparr>body_start_index := Val 7, body_end_index := Val 9,
        body_start_date := Val ''2024-01-01'', body_end_date := Val ''2024-12-31''\<rparr>"
  let ?p' = "(sample_params (Some 5))\<lparr>start_index := 7, end_index := 9,
        start_date := Some ''2024-01-01'', end_date := Some ''2024-12-31''\<rparr>"
  have h2: "validate (table_name sample_config) ?b' = Inr ?p'"
    by (simp add: validate_def sample_config_def sample_body_def sample_params_def
      source_table_field_def index_field_def limit_field_def date_field_def failed_def)
  have h3: "body_source_table ?b = body_source_table ?b'"
    by (simp add: sample_body_def)
  have h4: "body_limit ?b = body_limit ?b'"
    by (simp add: sample_body_def)
  from pagination_and_dates_ignored [OF sample_body_valid h2 h3 h4, where responses = sample_responses
      and eng = "sample_store ''SELECT * FROM events LIMIT 5'' 5 sample_rows"
      and within_limits = True and creds = sample_admin]
  show ?thesis
    using sample_body_valid h2 by simp
qed

text \<open>
  C5. A body whose \<open>limit\<close> is above 1000 fails validation at the field
  \<open>limit\<close>; the request ends with an error and without any event, so no query was
  built or put to the store; with valid credentials the error is the validation error,
  status 422.
\<close>

theorem limit_above_1000_rejected:
  assumes "body_limit b = Val n" and "n > 1000"
  shows "\<exists>errors.
           validate (table_name cfg) b = Inl errors \<and> ''limit'' \<in> set errors \<and>
           fst (post_get_data cfg responses eng within_limits creds b) = [] \<and>
           (\<exists>e. snd (post_get_data cfg responses eng within_limits creds b) = Inl e) \<and>
           (\<forall>u. get_current_username cfg creds = Inr u \<longrightarrow>
              post_get_data cfg responses eng within_limits creds b =
                ([], Inl (RequestValidationError errors)) \<and>
              http_status (snd (post_get_data cfg responses eng within_limits creds b)) = 422)"
proof -
  from assms have "limit_field (body_limit b) = None"
    by (simp add: limit_field_def)
  then obtain errors where v: "validate (table_name cfg) b = Inl errors"
    and l: "''limit'' \<in> set errors"
    using validate_limit_rejected by blast
  show ?thesis
    using v l post_get_data_invalid [OF v, where responses = responses and eng = eng
        and within_limits = within_limits and creds = creds]
    by (auto simp: http_status_def)
qed

theorem limit_above_1000_rejected_witness:
  "(1001 :: int) > 1000 \<and>
   validate (table_name sample_config) (sample_body (Val 1001)) = Inl [''limit''] \<and>
   post_get_data sample_config sample_responses
     (sample_store ''SELECT * FROM events LIMIT 1001'' 1001 sample_rows) True sample_admin
     (sample_body (Val 1001)) = ([], Inl (RequestValidationError [''limit'']))"
proof -
  let ?b = "sample_body (Val 1001)"
  let ?ex = "sample_store ''SELECT * FROM events LIMIT 1001'' 1001 sample_rows"
  have h1: "body_limit ?b = Val 1001"
    by (simp add: sample_body_def)
  have h2: "(1001 :: int) > 1000"
    by simp
  have v: "validate (table_name sample_config) ?b = Inl [''limit'']"
    by (simp add: validate_sample limit_field_def)
  from limit_above_1000_rejected [OF h1 h2, where cfg = sample_config and responses = sample_responses
      and eng = ?ex and within_limits = True and creds = sample_admin]
  show ?thesis
    using v admin_passes by auto
qed

text \<open>
  C10. A body that omits \<open>start_index\<close> or \<open>end_index\<close>, or gives either a
  negative value, fails validation at that field; with valid credentials the request
  ends with the validation error, status 422, and no event. Yet the query text does not
  depend on the two fields.
\<close>

theorem index_fields_required_nonnegative:
  assumes "body_start_index b = Missing \<or> (\<exists>n < 0. body_start_index b = Val n) \<or>
           body_end_index b = Missing \<or> (\<exists>n < 0. body_end_index b = Val n)"
  shows "(\<exists>errors.
           validate (table_name cfg) b = Inl errors \<and>
           (''start_index'' \<in> set errors \<or> ''end_index'' \<in> set errors) \<and>
           fst (post_get_data cfg responses eng within_limits creds b) = [] \<and>
           (\<forall>u. get_current_username cfg creds = Inr u \<longrightarrow>
              post_get_data cfg responses eng within_limits creds b =
                ([], Inl (RequestValidationError errors)) \<and>
              http_status (snd (post_get_data cfg responses eng within_limits creds b)) = 422)) \<and>
         (\<forall>p i j. build_query (p\<lparr>start_index := i, end_index := j\<rparr>) = build_query p)"
proof -
  from assms have "index_field (body_start_index b) = None \<or> index_field (body_end_index b) = None"
    by (auto simp: index_field_def)
  then obtain errors where v: "validate (table_name cfg) b = Inl errors"
    and l: "''start_index'' \<in> set errors \<or> ''end_index'' \<in> set errors"
    using validate_start_index_rejected validate_end_index_rejected by blast
  have q: "\<forall>p i j. build_query (p\<lparr>start_index := i, end_index := j\<rparr>) = build_query p"
    by (simp add: build_query_def)
  show ?thesis
    using v l q post_get_data_invalid [OF v, where responses = responses and eng = eng
        and within_limits = within_limits and creds = creds]
    by (auto simp: http_status_def)
qed

theorem index_fields_required_nonnegative_witness:
  "validate (table_name sample_config) ((sample_body (Val 5))\<lparr>body_start_index := Missing\<rparr>) =
     Inl [''start_index''] \<and>
   post_get_data sample_config sample_responses
     (sample_store ''SELECT * FROM events LIMIT 5'' 5 sample_rows) True sample_admin
     ((sample_body (Val 5))\<lparr>body_start_index := Missing\<rparr>) =
     ([], Inl (RequestValidationError [''start_index''])) \<and>
   http_status (snd (post_get_data sample_config sample_responses
     (sample_store ''SELECT * FROM events LIMIT 5'' 5 sample_rows) True sample_admin
     ((sample_body (Val 5))\<lparr>body_start_index := Missing\<rparr>))) = 422"
proof -
  let ?b = "(sample_body (Val 5))\<lparr>body_start_index := Missing\<rparr>"
  have h: "body_start_index ?b = Missing \<or> (\<exists>n < 0. body_start_index ?b = Val n) \<or>
           body_end_index ?b = Missing \<or> (\<exists>n < 0. body_end_index ?b = Val n)"
    by (simp add: sample_body_def)
  have v: "validate (table_name sample_config) ?b = Inl [''start_index'']"
    by (simp add: validate_def sample_config_def sample_body_def
      source_table_field_def index_field_def limit_field_def date_field_def failed_def)
  from index_fields_required_nonnegative [OF h, where cfg = sample_config and responses = sample_responses
      and eng = "sample_store ''SELECT * FROM events LIMIT 5'' 5 sample_rows"
      and within_limits = True and creds = sample_admin]
  show ?thesis
    using v admin_passes by auto
qed


section \<open>Rate limiting\<close>




















end
